theory Spec2Isabelle
  imports Main
begin

section \<open>Values, errors and rows\<close>

text \<open>
  The exceptions the three modules can raise. \<open>Exception\<close> stands for any exception of
  the persistence layer or of a collaborator that is not in the sources (the string is
  its message).
\<close>

datatype error =
    NotFoundError string
  | RuntimeError
  | AttributeError string
  | ValueError
  | KeyError string
  | TypeError
  | Exception string

text \<open>JSON documents: the inbound action message and the relay payloads. An object is
  its key-value pairs, keys distinct; a dictionary is read with \<open>map_of\<close>.\<close>

datatype jval =
    JNull
  | JBool bool
  | JInt int
  | JStr string
  | JObj "(string \<times> jval) list"

text \<open>Rows of \<open>app.models\<close>: \<open>User\<close>, \<open>ChatMessage\<close> and \<open>ChatRoom\<close> (the ORM's
  \<open>id\<close> columns are \<open>user_id\<close>, \<open>message_id\<close> and \<open>room_id\<close> here; \<open>ChatMessage.context\<close>
  is \<open>msg_context\<close>). A room carries its members as the relationship \<open>ChatRoom.users\<close>
  loads them.\<close>

record user =
  user_id :: int
  nickname :: string

record chat_message =
  message_id :: int
  msg_context :: jval
  msg_room_id :: int
  author_id :: int

record chat_room =
  room_id :: int
  room_name :: string
  users :: "user list"
  active :: bool

text \<open>
  The database session \<open>self.db\<close>: the three tables in row order, the next primary key
  of the room table, and the column default of \<open>ChatRoom.active\<close> (declared in
  \<open>app.models\<close>, which is not among the sources, hence a parameter).
\<close>

record database =
  user_table :: "user list"
  room_table :: "chat_room list"
  message_table :: "chat_message list"
  next_room_id :: int
  default_active :: bool

text \<open>The entries \<open>logger.info\<close> and \<open>logger.error\<close> write, one constructor per call site.\<close>

datatype log_entry =
    Info_updated_room_activity bool
  | Error_setting_activity error
  | Error_adding_message error
  | Info_removing_chat int
  | Info_no_such_chat int

text \<open>The response dictionaries handed to \<open>ws_manager.connection_state\<close>.\<close>

datatype event =
    USER_JOIN int int string "(int \<times> jval \<times> int) list"
  | CREATE_MESSAGE int int string int jval
  | DELETE_MESSAGE jval
  | UPDATE_MESSAGE int jval
  | USER_LEAVE int int string

text \<open>
  Everything the methods read and write: the database, the calls made to
  \<open>ws_manager.connection_state\<close> (room id and response, in call order) and the log.
\<close>

record world =
  db :: database
  sent :: "(int \<times> event) list"
  logs :: "log_entry list"

section \<open>Room directory (chatroom.py)\<close>

subsection \<open>Label derivation\<close>

text \<open>Python's \<open>str.split(sep)\<close> for a one-character separator: never an empty list.\<close>

fun split_str :: "char \<Rightarrow> string \<Rightarrow> string list" where
  "split_str c [] = [[]]"
| "split_str c (x # xs) =
     (if x = c then [] # split_str c xs
      else (case split_str c xs of
              [] \<Rightarrow> [[x]]
            | t # ts \<Rightarrow> (x # t) # ts))"

text \<open>
  \<open>ChatService._extract_nickname\<close>: \<open>list.remove\<close> drops the first token equal to the
  viewer's nickname and raises \<open>ValueError\<close> when there is none; \<open>"".join\<close> is \<open>concat\<close>.
  The method mutates \<open>room_db.room_name\<close>; \<open>extract_nickname\<close> is the room object after
  the assignment.
\<close>

definition extract_nickname :: "chat_room \<Rightarrow> user \<Rightarrow> error + chat_room" where
  "extract_nickname room_db cur =
     (let friend_name = split_str CHR ''|'' (room_name room_db) in
      if nickname cur \<in> set friend_name
      then Inr (room_db\<lparr>room_name := concat (remove1 (nickname cur) friend_name)\<rparr>)
      else Inl ValueError)"

text \<open>
  The room object a query returns is the session's own object for that row, so the
  assignment to \<open>room_db.room_name\<close> is also what every later query of the same session
  reads for the row with that primary key. \<open>extract_nickname_row\<close> is the call
  \<open>_extract_nickname(room_db, current_user)\<close> on a room the session returned: the object
  after the assignment and the session after it, or \<open>ValueError\<close> and nothing assigned.
\<close>

definition set_room_name :: "database \<Rightarrow> int \<Rightarrow> string \<Rightarrow> database" where
  "set_room_name d rid name =
     d\<lparr>room_table := map (\<lambda>r. if room_id r = rid then r\<lparr>room_name := name\<rparr> else r) (room_table d)\<rparr>"

definition extract_nickname_row ::
  "database \<Rightarrow> chat_room \<Rightarrow> user \<Rightarrow> (error + chat_room) \<times> database" where
  "extract_nickname_row d room_db cur =
     (case extract_nickname room_db cur of
        Inl e \<Rightarrow> (Inl e, d)
      | Inr r \<Rightarrow> (Inr r, set_room_name d (room_id room_db) (room_name r)))"

subsection \<open>Collaborators that are not among the sources\<close>

text \<open>
  Modelled from the spec: \<open>UserService.get_user_by_nickname\<close> and
  \<open>UserService.get_user_by_field\<close> (\<open>app.services\<close> is not among the sources). The spec
  says of the peer lookup: "look up peer by nickname (fails with \<open>NotFoundError\<close> if
  unknown)"; \<open>insert_room\<close> tests the result of \<open>get_user_by_nickname\<close> for falsity, so
  that one returns \<open>None\<close> for an unknown nickname.
\<close>

definition get_user_by_nickname :: "database \<Rightarrow> string \<Rightarrow> user option" where
  "get_user_by_nickname d n = find (\<lambda>u. nickname u = n) (user_table d)"

definition get_user_by_field :: "database \<Rightarrow> string \<Rightarrow> error + user" where
  "get_user_by_field d n =
     (case get_user_by_nickname d n of
        None \<Rightarrow> Inl (NotFoundError ''User'')
      | Some u \<Rightarrow> Inr u)"

text \<open>
  \<open>MessageService\<close> (\<open>app.services.message\<close>) is not among the sources either: its four
  methods are parameters. Each either raises and leaves the database as it was, or
  returns its result and the database after the commit.
\<close>

record message_create =
  mc_context :: jval
  mc_room_id :: int
  mc_author_id :: int

record message_service =
  create_message :: "database \<Rightarrow> message_create \<Rightarrow> error + chat_message \<times> database"
  delete_message :: "database \<Rightarrow> jval \<Rightarrow> error + database"
  update_message :: "database \<Rightarrow> jval \<Rightarrow> jval \<Rightarrow> error + chat_message \<times> database"
  get_all_messages_in_room :: "database \<Rightarrow> int \<Rightarrow> error + chat_message list"

text \<open>
  Modelled from the spec: \<open>ws_manager.connection_state\<close> (\<open>app.core.ws\<close> is not among the
  sources). The spec calls it publishing a relay event for the room; the model records
  the call.
\<close>

definition connection_state :: "world \<Rightarrow> int \<Rightarrow> event \<Rightarrow> world" where
  "connection_state w rid response = w\<lparr>sent := sent w @ [(rid, response)]\<rparr>"

definition logger :: "world \<Rightarrow> log_entry \<Rightarrow> world" where
  "logger w e = w\<lparr>logs := logs w @ [e]\<rparr>"

subsection \<open>Queries\<close>

text \<open>
  \<open>ChatService.get_room_by_nickname\<close>: the first room with a member whose nickname is
  \<open>nickname\<close> and a member whose nickname is the current user's.
\<close>

definition has_nickname :: "string \<Rightarrow> chat_room \<Rightarrow> bool" where
  "has_nickname n r = list_ex (\<lambda>u. nickname u = n) (users r)"

definition get_room_by_nickname :: "database \<Rightarrow> user \<Rightarrow> string \<Rightarrow> chat_room option" where
  "get_room_by_nickname d cur n =
     find (\<lambda>r. has_nickname n r \<and> has_nickname (nickname cur) r) (room_table d)"

text \<open>
  \<open>ChatService.get_room_by_id\<close>. With a current user the query also requires a member
  with that user's id; the label transform runs when a current user is given,
  \<open>filter_result\<close> is true and a room was found; no room raises \<open>NotFoundError\<close>. The
  result is the room (or the exception) and the session, which the label transform
  writes to.
\<close>

definition get_room_by_id ::
  "database \<Rightarrow> int \<Rightarrow> user option \<Rightarrow> bool \<Rightarrow> (error + chat_room) \<times> database" where
  "get_room_by_id d rid current filter_result =
     (let room_db =
        (case current of
           Some cur \<Rightarrow>
             find (\<lambda>r. list_ex (\<lambda>u. user_id u = user_id cur) (users r) \<and> room_id r = rid)
               (room_table d)
         | None \<Rightarrow> find (\<lambda>r. room_id r = rid) (room_table d))
      in case room_db of
           None \<Rightarrow> (Inl (NotFoundError ''Chat''), d)
         | Some r \<Rightarrow>
             (case current of
                Some cur \<Rightarrow> if filter_result then extract_nickname_row d r cur else (Inr r, d)
              | None \<Rightarrow> (Inr r, d)))"

subsection \<open>Creating rooms\<close>

text \<open>
  \<open>self.db.add(room); await self.db.commit()\<close> for a new \<open>ChatRoom(room_name=..., users=...)\<close>:
  the row gets the next primary key and the column default of \<open>active\<close>, and is appended
  to the table.
\<close>

definition new_room :: "database \<Rightarrow> string \<Rightarrow> user list \<Rightarrow> chat_room" where
  "new_room d name us =
     \<lparr>room_id = next_room_id d, room_name = name, users = us, active = default_active d\<rparr>"

definition add_commit :: "database \<Rightarrow> chat_room \<Rightarrow> database" where
  "add_commit d room =
     d\<lparr>room_table := room_table d @ [room], next_room_id := next_room_id d + 1\<rparr>"

definition get_or_create_room :: "world \<Rightarrow> user \<Rightarrow> string \<Rightarrow> (error + chat_room) \<times> world" where
  "get_or_create_room w cur other_user_nickname =
     (case get_user_by_field (db w) other_user_nickname of
        Inl e \<Rightarrow> (Inl e, w)
      | Inr user_db \<Rightarrow>
          (case get_room_by_nickname (db w) cur other_user_nickname of
             Some room_db \<Rightarrow> (Inr room_db, w)
           | None \<Rightarrow>
               (let room = new_room (db w) (nickname cur @ ''|'' @ other_user_nickname)
                             [user_db, cur];
                    w1 = w\<lparr>db := add_commit (db w) room\<rparr>
                in (case get_room_by_id (db w1) (room_id room) (Some cur) False of
                      (res, d2) \<Rightarrow> (res, w1\<lparr>db := d2\<rparr>)))))"

text \<open>
  \<open>ChatService.insert_room\<close>. In the found branch \<open>_extract_nickname\<close> runs on the room the
  session returned, and that room is what the method returns.
\<close>

definition insert_room :: "world \<Rightarrow> user \<Rightarrow> string \<Rightarrow> (error + chat_room) \<times> world" where
  "insert_room w cur n =
     (case get_user_by_nickname (db w) n of
        None \<Rightarrow> (Inl (NotFoundError ''User''), w)
      | Some user_db_1 \<Rightarrow>
          (case get_room_by_nickname (db w) cur n of
             Some room_db \<Rightarrow>
               (case extract_nickname_row (db w) room_db cur of
                  (res, d1) \<Rightarrow> (res, w\<lparr>db := d1\<rparr>))
           | None \<Rightarrow>
               (let room = new_room (db w) (nickname cur @ ''|'' @ n) [user_db_1, cur];
                    w1 = w\<lparr>db := add_commit (db w) room\<rparr>
                in (case get_room_by_id (db w1) (room_id room) (Some cur) False of
                      (res, d2) \<Rightarrow> (res, w1\<lparr>db := d2\<rparr>)))))"

subsection \<open>Activity flag\<close>

text \<open>
  \<open>ChatService.set_room_activity\<close>. The statement \<open>UPDATE chat_room SET active = ... WHERE
  id = room_id\<close> and its commit, inside the \<open>try\<close>, either write the flag to every row
  with that id or raise and write nothing. The \<open>except\<close> clause logs the exception and
  does not roll back, and the closing \<open>get_room_by_id\<close> is outside the \<open>try\<close>: whether the
  session still answers that query depends on the failure (a commit that raised leaves
  the session's transaction unusable, an aborted transaction rejects every statement).
  The persistence layer is not among the sources, so a fault is a parameter with both
  parts: the exception raised inside the \<open>try\<close>, and the exception the next query on the
  session raises, if it raises.

  \<open>get_room_by_id\<close> raises rather than returning \<open>None\<close>, so the test
  \<open>room_db is not None\<close> always succeeds and the final \<open>return None\<close> is never reached.
\<close>

datatype fault = Fault error "error option"

definition update_active :: "database \<Rightarrow> int \<Rightarrow> bool \<Rightarrow> database" where
  "update_active d rid activity_bool =
     d\<lparr>room_table :=
         map (\<lambda>r. if room_id r = rid then r\<lparr>active := activity_bool\<rparr> else r) (room_table d)\<rparr>"

text \<open>The closing \<open>return await self.get_room_by_id(room_id)\<close>.\<close>

definition refetch_room :: "world \<Rightarrow> int \<Rightarrow> (error + chat_room option) \<times> world" where
  "refetch_room w rid =
     (case get_room_by_id (db w) rid None True of
        (Inl e, d) \<Rightarrow> (Inl e, w\<lparr>db := d\<rparr>)
      | (Inr r, d) \<Rightarrow> (Inr (Some r), w\<lparr>db := d\<rparr>))"

definition set_room_activity ::
  "fault option \<Rightarrow> world \<Rightarrow> int \<Rightarrow> bool \<Rightarrow> (error + chat_room option) \<times> world" where
  "set_room_activity flt w rid activity_bool =
     (case get_room_by_id (db w) rid None True of
        (Inl e, d) \<Rightarrow> (Inl e, w\<lparr>db := d\<rparr>)
      | (Inr room_db, d) \<Rightarrow>
          (case flt of
             None \<Rightarrow>
               refetch_room
                 (logger (w\<lparr>db := update_active d rid activity_bool\<rparr>)
                    (Info_updated_room_activity activity_bool))
                 rid
           | Some (Fault e after) \<Rightarrow>
               (let w1 = logger (w\<lparr>db := d\<rparr>) (Error_setting_activity e) in
                case after of
                  Some e2 \<Rightarrow> (Inl e2, w1)
                | None \<Rightarrow> refetch_room w1 rid)))"

subsection \<open>Uploading a message\<close>

text \<open>
  \<open>ChatService.upload_message_to_room\<close> returns \<open>Union[ChatMessage, bool]\<close>. The whole
  body is inside the \<open>try\<close>: a missing \<open>"content"\<close> key, a room that is \<open>None\<close> and a
  failure of the store all end in the log entry and \<open>False\<close>. Building the
  \<open>MessageCreate\<close> schema (\<open>app.schemas\<close>, not among the sources) happens inside the same
  \<open>try\<close>; a validation error there counts among the failures of \<open>create_message\<close>.
\<close>

datatype upload_result = Uploaded chat_message | PyFalse

definition upload_message_to_room ::
  "message_service \<Rightarrow> world \<Rightarrow> user \<Rightarrow> chat_room option \<Rightarrow> (string \<times> jval) list
     \<Rightarrow> upload_result \<times> world" where
  "upload_message_to_room ms w cur room_db message =
     (case map_of message ''content'' of
        None \<Rightarrow> (PyFalse, logger w (Error_adding_message (KeyError ''content'')))
      | Some content \<Rightarrow>
          (case room_db of
             None \<Rightarrow> (PyFalse, logger w (Error_adding_message (AttributeError ''NoneType.id'')))
           | Some r \<Rightarrow>
               (case create_message ms (db w)
                       \<lparr>mc_context = content, mc_room_id = room_id r,
                        mc_author_id = user_id cur\<rparr> of
                  Inl e \<Rightarrow> (PyFalse, logger w (Error_adding_message e))
                | Inr (m, d') \<Rightarrow> (Uploaded m, w\<lparr>db := d'\<rparr>))))"

subsection \<open>Leaving a room\<close>

text \<open>
  \<open>ChatService.remove_user_from_chat\<close>. The commit after \<open>room_db.users.remove\<close> rewrites
  the membership of the row with the room's id; \<open>self.db.delete\<close> and its commit remove
  that row. \<open>list.remove\<close> raises \<open>ValueError\<close> when the list does not hold the user.
\<close>

definition commit_users :: "database \<Rightarrow> int \<Rightarrow> user list \<Rightarrow> database" where
  "commit_users d rid us =
     d\<lparr>room_table := map (\<lambda>r. if room_id r = rid then r\<lparr>users := us\<rparr> else r) (room_table d)\<rparr>"

definition delete_room :: "database \<Rightarrow> int \<Rightarrow> database" where
  "delete_room d rid = d\<lparr>room_table := filter (\<lambda>r. room_id r \<noteq> rid) (room_table d)\<rparr>"

definition remove_user_from_chat :: "world \<Rightarrow> user \<Rightarrow> int \<Rightarrow> (error + unit) \<times> world" where
  "remove_user_from_chat w cur rid =
     (case get_room_by_id (db w) rid (Some cur) False of
        (Inl e, d) \<Rightarrow> (Inl e, w\<lparr>db := d\<rparr>)
      | (Inr room_db, d) \<Rightarrow>
          (let rooms_user_list = map user_id (users room_db);
               w0 = w\<lparr>db := d\<rparr>
           in
           if user_id cur \<in> set rooms_user_list then
             (let w1 = logger w0 (Info_removing_chat rid) in
              if cur \<in> set (users room_db) then
                (let us = remove1 cur (users room_db);
                     w2 = w1\<lparr>db := commit_users (db w1) (room_id room_db) us\<rparr>
                 in if us = [] then (Inr (), w2\<lparr>db := delete_room (db w2) (room_id room_db)\<rparr>)
                    else (Inr (), w2))
              else (Inl ValueError, w1))
           else (Inr (), logger w0 (Info_no_such_chat rid))))"

section \<open>Session (websocket\_chat.py)\<close>

text \<open>
  The \<open>ChatRoom\<close> session object: the websocket and database handles are the world, the
  rest are its attributes. \<open>room\<close> is \<open>None\<close> until \<open>on_connect\<close> assigns it.
\<close>

record session =
  current_user :: user
  other_user_nickname :: string
  room :: "chat_room option"

definition init_session :: "user \<Rightarrow> string \<Rightarrow> session" where
  "init_session cur other = \<lparr>current_user = cur, other_user_nickname = other, room = None\<rparr>"

definition message_view :: "chat_message \<Rightarrow> int \<times> jval \<times> int" where
  "message_view m = (message_id m, msg_context m, author_id m)"

text \<open>
  \<open>ChatRoom.on_connect\<close>. Only \<open>NotFoundError\<close> from the history query is caught. An
  exception leaves the session as it was when it was raised, so the result carries the
  session and the world in both cases.
\<close>

definition on_connect ::
  "message_service \<Rightarrow> session \<Rightarrow> world \<Rightarrow> (error + unit) \<times> session \<times> world" where
  "on_connect ms s w =
     (if nickname (current_user s) = other_user_nickname s then (Inl RuntimeError, s, w)
      else
        (case get_or_create_room w (current_user s) (other_user_nickname s) of
           (Inl e, w1) \<Rightarrow> (Inl e, s, w1)
         | (Inr r, w1) \<Rightarrow>
             (let s1 = s\<lparr>room := Some r\<rparr>;
                  join = (\<lambda>chat_messages.
                    (Inr (), s1,
                     connection_state w1 (room_id r)
                       (USER_JOIN (room_id r) (user_id (current_user s))
                          (nickname (current_user s)) chat_messages)))
              in (case get_all_messages_in_room ms (db w1) (room_id r) of
                    Inr messages \<Rightarrow> join (map message_view messages)
                  | Inl (NotFoundError x) \<Rightarrow> join []
                  | Inl e \<Rightarrow> (Inl e, s1, w1)))))"

text \<open>
  \<open>ChatRoom.on_receive\<close>, for the dictionary \<open>msg\<close> that \<open>receive_json\<close> returned. Reading
  an attribute of \<open>None\<close> or of \<open>False\<close> raises \<open>AttributeError\<close>; a missing key raises
  \<open>KeyError\<close>. What was written before an exception stays written.
\<close>

definition on_receive ::
  "message_service \<Rightarrow> session \<Rightarrow> world \<Rightarrow> (string \<times> jval) list \<Rightarrow> (error + unit) \<times> world" where
  "on_receive ms s w msg =
     (case map_of msg ''action'' of
        None \<Rightarrow> (Inl (KeyError ''action''), w)
      | Some action \<Rightarrow>
          if action = JStr ''CREATE'' then
            (case upload_message_to_room ms w (current_user s) (room s) msg of
               (new_message, w1) \<Rightarrow>
                 (case room s of
                    None \<Rightarrow> (Inl (AttributeError ''NoneType.id''), w1)
                  | Some r \<Rightarrow>
                      (case new_message of
                         PyFalse \<Rightarrow> (Inl (AttributeError ''bool.id''), w1)
                       | Uploaded m \<Rightarrow>
                           (Inr (),
                            connection_state w1 (room_id r)
                              (CREATE_MESSAGE (room_id r) (user_id (current_user s))
                                 (nickname (current_user s)) (message_id m) (msg_context m))))))
          else if action = JStr ''DELETE'' then
            (case map_of msg ''content'' of
               None \<Rightarrow> (Inl (KeyError ''content''), w)
             | Some content \<Rightarrow>
                 (case delete_message ms (db w) content of
                    Inl e \<Rightarrow> (Inl e, w)
                  | Inr d' \<Rightarrow>
                      (case room s of
                         None \<Rightarrow> (Inl (AttributeError ''NoneType.id''), w\<lparr>db := d'\<rparr>)
                       | Some r \<Rightarrow>
                           (Inr (),
                            connection_state (w\<lparr>db := d'\<rparr>) (room_id r)
                              (DELETE_MESSAGE content)))))
          else if action = JStr ''UPDATE'' then
            (case map_of msg ''message_id'' of
               None \<Rightarrow> (Inl (KeyError ''message_id''), w)
             | Some mid \<Rightarrow>
                 (case map_of msg ''content'' of
                    None \<Rightarrow> (Inl (KeyError ''content''), w)
                  | Some content \<Rightarrow>
                      (case update_message ms (db w) mid content of
                         Inl e \<Rightarrow> (Inl e, w)
                       | Inr (message_db, d') \<Rightarrow>
                           (case room s of
                              None \<Rightarrow> (Inl (AttributeError ''NoneType.id''), w\<lparr>db := d'\<rparr>)
                            | Some r \<Rightarrow>
                                (Inr (),
                                 connection_state (w\<lparr>db := d'\<rparr>) (room_id r)
                                   (UPDATE_MESSAGE (message_id message_db)
                                      (msg_context message_db)))))))
          else (Inr (), w))"

text \<open>\<open>ChatRoom.on_disconnect\<close>: the response dictionary reads \<open>self.room.id\<close> first.\<close>

definition on_disconnect :: "session \<Rightarrow> world \<Rightarrow> (error + unit) \<times> world" where
  "on_disconnect s w =
     (case room s of
        None \<Rightarrow> (Inl (AttributeError ''NoneType.id''), w)
      | Some r \<Rightarrow>
          (Inr (),
           connection_state w (room_id r)
             (USER_LEAVE (room_id r) (user_id (current_user s)) (nickname (current_user s)))))"

section \<open>Relay (kafka.py)\<close>

text \<open>
  The dependency container behind \<open>Provide[...]\<close>: the two topic names. The broker keeps,
  per topic, the records sent to it, in order. \<open>json.dumps(...).encode\<close> and \<open>json.loads\<close>
  are inverse to each other on the documents sent here; the bytes stay abstract.
\<close>

record container =
  confirmation_topic :: string
  chat_rooms_topic :: string

datatype wire = Encoded jval

type_synonym broker = "string \<Rightarrow> wire list"

definition json_dumps :: "jval \<Rightarrow> wire" where
  "json_dumps v = Encoded v"

fun json_loads :: "wire \<Rightarrow> jval" where
  "json_loads (Encoded v) = v"

definition send_and_wait :: "broker \<Rightarrow> string \<Rightarrow> wire \<Rightarrow> broker" where
  "send_and_wait b topic v = b(topic := b topic @ [v])"

text \<open>
  \<open>KafkaService.send_chat_message_producer\<close>, its topic parameter at its default
  \<open>Provide["chat_rooms_topic"]\<close>.
\<close>

definition send_chat_message_producer :: "container \<Rightarrow> broker \<Rightarrow> jval \<Rightarrow> broker" where
  "send_chat_message_producer c producer message =
     (let topic = chat_rooms_topic c;
          value_json = json_dumps message
      in send_and_wait producer topic value_json)"

text \<open>
  Modelled from the spec: \<open>ws_manager.broadcast(room_id, message)\<close>, the Connection
  Registry's delivery to the local connections of a room; the model records the call.

  The body of the consumer's \<open>async for\<close>, over the records the subscription has
  delivered so far: \<open>None\<close> when all of them were handled and the loop waits for the
  next one, the exception when one was raised. Indexing a document that is not an
  object raises \<open>TypeError\<close>, an object without \<open>"room_id"\<close> raises \<open>KeyError\<close>.
\<close>

fun consume_records :: "(jval \<times> jval) list \<Rightarrow> wire list \<Rightarrow> error option \<times> (jval \<times> jval) list" where
  "consume_records broadcasts [] = (None, broadcasts)"
| "consume_records broadcasts (m # ms) =
     (case json_loads m of
        JObj kvs \<Rightarrow>
          (case map_of kvs ''room_id'' of
             None \<Rightarrow> (Some (KeyError ''room_id''), broadcasts)
           | Some rid \<Rightarrow> consume_records (broadcasts @ [(rid, JObj kvs)]) ms)
      | _ \<Rightarrow> (Some TypeError, broadcasts))"

text \<open>
  \<open>KafkaService.send_chat_message_consumer\<close>, its topic parameter at its default: the
  parameter is named \<open>confirmation_topic\<close> and defaults to \<open>Provide["confirmation_topic"]\<close>.
\<close>

definition send_chat_message_consumer ::
  "container \<Rightarrow> broker \<Rightarrow> error option \<times> (jval \<times> jval) list" where
  "send_chat_message_consumer c consumer =
     (let topic = confirmation_topic c
      in consume_records [] (consumer topic))"

section \<open>Database invariant and example data\<close>

text \<open>
  The primary key of the room table: every stored room has an id below the next one to be
  assigned. \<open>rooms_of_pair\<close> lists the rooms the pair query of \<open>get_room_by_nickname\<close>
  matches.
\<close>

definition room_ids_fresh :: "database \<Rightarrow> bool" where
  "room_ids_fresh d = list_all (\<lambda>r. room_id r < next_room_id d) (room_table d)"

definition rooms_of_pair :: "database \<Rightarrow> string \<Rightarrow> string \<Rightarrow> chat_room list" where
  "rooms_of_pair d a b = filter (\<lambda>r. has_nickname a r \<and> has_nickname b r) (room_table d)"

text \<open>Three users, the database before and after alice first contacts bob, a session of
  alice in that room, a message store that is down, and a relay configuration.\<close>

definition alice :: user where
  "alice = \<lparr>user_id = 1, nickname = ''alice''\<rparr>"

definition bob :: user where
  "bob = \<lparr>user_id = 2, nickname = ''bob''\<rparr>"

definition carol :: user where
  "carol = \<lparr>user_id = 3, nickname = ''carol''\<rparr>"

definition room1 :: chat_room where
  "room1 = \<lparr>room_id = 1, room_name = ''alice|bob'', users = [bob, alice], active = True\<rparr>"

definition db0 :: database where
  "db0 = \<lparr>user_table = [alice, bob, carol], room_table = [], message_table = [],
          next_room_id = 1, default_active = True\<rparr>"

definition db1 :: database where
  "db1 = db0\<lparr>room_table := [room1], next_room_id := 2\<rparr>"

definition world0 :: world where
  "world0 = \<lparr>db = db0, sent = [], logs = []\<rparr>"

definition world1 :: world where
  "world1 = \<lparr>db = db1, sent = [], logs = []\<rparr>"

definition world1_relabelled :: world where
  "world1_relabelled = world1\<lparr>db := db1\<lparr>room_table := [room1\<lparr>room_name := ''bob''\<rparr>]\<rparr>\<rparr>"

definition session1 :: session where
  "session1 = \<lparr>current_user = alice, other_user_nickname = ''bob'', room = Some room1\<rparr>"

definition failing_store :: message_service where
  "failing_store =
     \<lparr>create_message = (\<lambda>d mc. Inl (Exception ''store down'')),
      delete_message = (\<lambda>d c. Inl (Exception ''store down'')),
      update_message = (\<lambda>d i c. Inl (Exception ''store down'')),
      get_all_messages_in_room = (\<lambda>d r. Inl (NotFoundError ''Message''))\<rparr>"

definition container0 :: container where
  "container0 = \<lparr>confirmation_topic = ''confirmation'', chat_rooms_topic = ''chat_rooms''\<rparr>"

definition chat_event0 :: jval where
  "chat_event0 = JObj [(''type'', JStr ''CREATE_MESSAGE''), (''room_id'', JInt 1)]"

lemmas fx = alice_def bob_def carol_def room1_def db0_def db1_def world0_def world1_def
  world1_relabelled_def
  session1_def failing_store_def container0_def chat_event0_def

section \<open>Label derivation: proofs\<close>

lemma split_str_no_sep: "c \<notin> set b \<Longrightarrow> split_str c b = [b]"
  by (induction b) auto

lemma split_str_two: "c \<notin> set a \<Longrightarrow> split_str c (a @ c # b) = a # split_str c b"
  by (induction a) auto

lemma split_str_pair:
  "c \<notin> set a \<Longrightarrow> c \<notin> set b \<Longrightarrow> split_str c (a @ c # b) = [a, b]"
  by (simp add: split_str_two split_str_no_sep)

text \<open>
  C5. A canonical label \<open>a|b\<close> built from two nicknames that do not contain the separator
  splits into exactly the two tokens \<open>a\<close> and \<open>b\<close>; the viewer named \<open>a\<close> is returned the
  label \<open>b\<close> and the viewer named \<open>b\<close> is returned the label \<open>a\<close> (the token equal to the
  viewer's nickname is removed and what remains is concatenated).
\<close>

theorem extract_nickname_label_symmetry:
  assumes "CHR ''|'' \<notin> set a" and "CHR ''|'' \<notin> set b"
    and "room_name room_db = a @ ''|'' @ b"
  shows "split_str CHR ''|'' (room_name room_db) = [a, b]
       \<and> (nickname viewer = a \<longrightarrow>
            extract_nickname room_db viewer = Inr (room_db\<lparr>room_name := b\<rparr>))
       \<and> (nickname viewer = b \<longrightarrow>
            extract_nickname room_db viewer = Inr (room_db\<lparr>room_name := a\<rparr>))"
proof -
  have toks: "split_str CHR ''|'' (room_name room_db) = [a, b]"
    using assms by (simp add: split_str_pair)
  show ?thesis
    by (simp add: toks extract_nickname_def)
qed

theorem extract_nickname_label_symmetry_witness:
  "extract_nickname \<lparr>room_id = 1, room_name = ''alice|bob'', users = [], active = True\<rparr>
       \<lparr>user_id = 1, nickname = ''alice''\<rparr>
     = Inr \<lparr>room_id = 1, room_name = ''bob'', users = [], active = True\<rparr>
   \<and> extract_nickname \<lparr>room_id = 1, room_name = ''alice|bob'', users = [], active = True\<rparr>
       \<lparr>user_id = 2, nickname = ''bob''\<rparr>
     = Inr \<lparr>room_id = 1, room_name = ''alice'', users = [], active = True\<rparr>"
  using extract_nickname_label_symmetry [of "''alice''" "''bob''"
      "\<lparr>room_id = 1, room_name = ''alice|bob'', users = [], active = True\<rparr>"
      "\<lparr>user_id = 1, nickname = ''alice''\<rparr>"]
    extract_nickname_label_symmetry [of "''alice''" "''bob''"
      "\<lparr>room_id = 1, room_name = ''alice|bob'', users = [], active = True\<rparr>"
      "\<lparr>user_id = 2, nickname = ''bob''\<rparr>"]
  by simp

text \<open>
  C10. The derivation returns a label exactly when the viewer's nickname is one of the
  tokens of the stored label; when it is not among them the derivation raises
  \<open>ValueError\<close> and returns no label.
\<close>

theorem extract_nickname_missing_token:
  "(nickname viewer \<notin> set (split_str CHR ''|'' (room_name room_db))
      \<longrightarrow> extract_nickname room_db viewer = Inl ValueError)
   \<and> ((\<exists>r. extract_nickname room_db viewer = Inr r)
      \<longleftrightarrow> nickname viewer \<in> set (split_str CHR ''|'' (room_name room_db)))"
  by (simp add: extract_nickname_def Let_def)

theorem extract_nickname_missing_token_witness:
  "''carol'' \<notin> set (split_str CHR ''|'' ''alice|bob'')
   \<and> extract_nickname \<lparr>room_id = 1, room_name = ''alice|bob'', users = [], active = True\<rparr>
        \<lparr>user_id = 3, nickname = ''carol''\<rparr> = Inl ValueError"
  using extract_nickname_missing_token
    [of "\<lparr>user_id = 3, nickname = ''carol''\<rparr>"
        "\<lparr>room_id = 1, room_name = ''alice|bob'', users = [], active = True\<rparr>"]
  by simp

section \<open>Room resolution: proofs\<close>

lemma find_append:
  "find P (xs @ ys) = (case find P xs of None \<Rightarrow> find P ys | Some x \<Rightarrow> Some x)"
  by (induction xs) auto

lemma find_None_filter: "find P xs = None \<Longrightarrow> filter P xs = []"
  by (induction xs) (auto split: if_splits)

lemma find_Some_filter: "find P xs = Some x \<Longrightarrow> 1 \<le> length (filter P xs)"
  by (induction xs) (auto split: if_splits)

lemma get_room_by_nickname_sym:
  "get_room_by_nickname d b (nickname a) = get_room_by_nickname d a (nickname b)"
  by (simp add: get_room_by_nickname_def conj_commute)

lemma get_room_by_nickname_pair:
  "get_room_by_nickname d a n
     = find (\<lambda>r. has_nickname (nickname a) r \<and> has_nickname n r) (room_table d)"
  by (simp add: get_room_by_nickname_def conj_commute)

lemma nickname_found: "get_user_by_nickname d n = Some u \<Longrightarrow> nickname u = n"
  by (auto simp: get_user_by_nickname_def find_Some_iff)

lemma room_id_new_room [simp]: "room_id (new_room d name us) = next_room_id d"
  by (simp add: new_room_def)

lemma fresh_find_id:
  assumes "room_ids_fresh d"
  shows "find (\<lambda>r. Q r \<and> room_id r = next_room_id d) (room_table d) = None"
  using assms by (auto simp: room_ids_fresh_def find_None_iff list_all_iff)

lemma refetch_created:
  assumes "room_ids_fresh d"
  shows "get_room_by_id (add_commit d (new_room d name [u, cur])) (next_room_id d) (Some cur) False
           = (Inr (new_room d name [u, cur]), add_commit d (new_room d name [u, cur]))"
  using fresh_find_id [OF assms]
  by (simp add: get_room_by_id_def add_commit_def find_append new_room_def)

text \<open>The invariant holds of an empty table and every write of the directory keeps it.\<close>

lemma room_ids_fresh_add_commit:
  "room_ids_fresh d \<Longrightarrow> room_ids_fresh (add_commit d (new_room d name us))"
  by (auto simp: room_ids_fresh_def add_commit_def new_room_def list_all_iff)

lemma room_ids_fresh_writes:
  assumes "room_ids_fresh d"
  shows "room_ids_fresh (update_active d rid b)"
    and "room_ids_fresh (commit_users d rid us)"
    and "room_ids_fresh (delete_room d rid)"
  using assms
  by (auto simp: room_ids_fresh_def update_active_def commit_users_def delete_room_def
      list_all_iff)

lemma created_branch:
  assumes fresh: "room_ids_fresh (db w)"
    and none: "get_room_by_nickname (db w) cur n = None"
    and known: "get_user_by_nickname (db w) n = Some peer"
  shows "get_or_create_room w cur n
           = (Inr (new_room (db w) (nickname cur @ ''|'' @ n) [peer, cur]),
              w\<lparr>db := add_commit (db w) (new_room (db w) (nickname cur @ ''|'' @ n) [peer, cur])\<rparr>)"
    and "insert_room w cur n
           = (Inr (new_room (db w) (nickname cur @ ''|'' @ n) [peer, cur]),
              w\<lparr>db := add_commit (db w) (new_room (db w) (nickname cur @ ''|'' @ n) [peer, cur])\<rparr>)"
proof -
  show "get_or_create_room w cur n
           = (Inr (new_room (db w) (nickname cur @ ''|'' @ n) [peer, cur]),
              w\<lparr>db := add_commit (db w) (new_room (db w) (nickname cur @ ''|'' @ n) [peer, cur])\<rparr>)"
    using none known refetch_created [OF fresh]
    by (simp add: get_or_create_room_def get_user_by_field_def Let_def)
  show "insert_room w cur n
           = (Inr (new_room (db w) (nickname cur @ ''|'' @ n) [peer, cur]),
              w\<lparr>db := add_commit (db w) (new_room (db w) (nickname cur @ ''|'' @ n) [peer, cur])\<rparr>)"
    using none known refetch_created [OF fresh]
    by (simp add: insert_room_def Let_def)
qed

lemma found_branch:
  assumes found: "get_room_by_nickname (db w) cur n = Some room_db"
    and known: "get_user_by_nickname (db w) n = Some peer"
  shows "get_or_create_room w cur n = (Inr room_db, w)"
    and "insert_room w cur n =
           (case extract_nickname_row (db w) room_db cur of (res, d1) \<Rightarrow> (res, w\<lparr>db := d1\<rparr>))"
  using assms by (simp_all add: get_or_create_room_def insert_room_def get_user_by_field_def)

text \<open>
  The found branch of \<open>insert_room\<close>: the relabelled room is returned and the label is
  overwritten on the session's row, so a second call on the same session no longer
  finds the requester's nickname among the tokens and raises \<open>ValueError\<close>.
\<close>

lemma insert_room_found_overwrites_row:
  assumes "get_room_by_nickname (db w) cur n = Some room_db"
    and "get_user_by_nickname (db w) n = Some peer"
    and "extract_nickname room_db cur = Inr r"
  shows "insert_room w cur n
           = (Inr r, w\<lparr>db := set_room_name (db w) (room_id room_db) (room_name r)\<rparr>)"
  using assms by (simp add: found_branch(2) extract_nickname_row_def)

lemma insert_room_found_missing_token:
  assumes "get_room_by_nickname (db w) cur n = Some room_db"
    and "get_user_by_nickname (db w) n = Some peer"
    and "nickname cur \<notin> set (split_str CHR ''|'' (room_name room_db))"
  shows "insert_room w cur n = (Inl ValueError, w)"
  using assms by (simp add: found_branch(2) extract_nickname_row_def extract_nickname_def)

lemma insert_room_second_call_raises:
  "insert_room world1 alice ''bob'' = (Inr (room1\<lparr>room_name := ''bob''\<rparr>), world1_relabelled)
   \<and> insert_room world1_relabelled alice ''bob'' = (Inl ValueError, world1_relabelled)"
  by (simp add: fx insert_room_def get_user_by_nickname_def get_room_by_nickname_def
      has_nickname_def extract_nickname_row_def extract_nickname_def set_room_name_def)

lemma extract_nickname_canonical:
  assumes "CHR ''|'' \<notin> set (nickname cur)" and "CHR ''|'' \<notin> set n"
    and "room_name room_db = nickname cur @ ''|'' @ n
         \<or> room_name room_db = n @ ''|'' @ nickname cur"
  shows "extract_nickname room_db cur = Inr (room_db\<lparr>room_name := n\<rparr>)"
proof -
  from assms(3) show ?thesis
  proof
    assume "room_name room_db = nickname cur @ ''|'' @ n"
    then have "split_str CHR ''|'' (room_name room_db) = [nickname cur, n]"
      using assms(1,2) by (simp add: split_str_pair)
    then show ?thesis by (simp add: extract_nickname_def)
  next
    assume "room_name room_db = n @ ''|'' @ nickname cur"
    then have "split_str CHR ''|'' (room_name room_db) = [n, nickname cur]"
      using assms(1,2) by (simp add: split_str_pair)
    then show ?thesis by (simp add: extract_nickname_def)
  qed
qed

text \<open>
  C3, as the code has it. For a requester and a known peer nickname, on a table whose
  ids are below the next key: when no room matches the pair, \<open>get_or_create_room\<close> and
  \<open>insert_room\<close> both append a room with the canonical label
  \<open><requester.nickname>|<peer.nickname>\<close> and members \<open>[peer, requester]\<close> and return it
  re-fetched with \<open>filter_result=False\<close>, so under its canonical label. When a room
  matches, \<open>get_or_create_room\<close> returns the stored room unchanged; \<open>insert_room\<close> returns
  it under the viewer-facing label, the peer's nickname, when the row's label is the
  canonical label of the requester's and the peer's separator-free nicknames in either
  order, and raises \<open>ValueError\<close> when the requester's nickname is not among the tokens of
  the row's label.
\<close>

theorem resolve_or_create_label:
  assumes "room_ids_fresh (db w)"
    and "get_user_by_nickname (db w) n = Some peer"
  shows "(get_room_by_nickname (db w) cur n = None \<longrightarrow>
            (\<exists>r w1. get_or_create_room w cur n = (Inr r, w1)
                   \<and> insert_room w cur n = (Inr r, w1)
                   \<and> room_name r = nickname cur @ ''|'' @ n
                   \<and> users r = [peer, cur]
                   \<and> room_table (db w1) = room_table (db w) @ [r]))
       \<and> (\<forall>room_db. get_room_by_nickname (db w) cur n = Some room_db \<longrightarrow>
            get_or_create_room w cur n = (Inr room_db, w)
          \<and> (CHR ''|'' \<notin> set (nickname cur) \<and> CHR ''|'' \<notin> set n
               \<and> (room_name room_db = nickname cur @ ''|'' @ n
                  \<or> room_name room_db = n @ ''|'' @ nickname cur)
               \<longrightarrow> fst (insert_room w cur n) = Inr (room_db\<lparr>room_name := n\<rparr>))
          \<and> (nickname cur \<notin> set (split_str CHR ''|'' (room_name room_db))
               \<longrightarrow> fst (insert_room w cur n) = Inl ValueError))"
proof (intro conjI impI allI)
  assume none: "get_room_by_nickname (db w) cur n = None"
  let ?r = "new_room (db w) (nickname cur @ ''|'' @ n) [peer, cur]"
  let ?w1 = "w\<lparr>db := add_commit (db w) ?r\<rparr>"
  have "get_or_create_room w cur n = (Inr ?r, ?w1)" and "insert_room w cur n = (Inr ?r, ?w1)"
    using created_branch [OF assms(1) none assms(2)] by simp_all
  moreover have "room_name ?r = nickname cur @ ''|'' @ n" and "users ?r = [peer, cur]"
    by (simp_all add: new_room_def)
  moreover have "room_table (db ?w1) = room_table (db w) @ [?r]"
    by (simp add: add_commit_def)
  ultimately show "\<exists>r w1. get_or_create_room w cur n = (Inr r, w1)
                   \<and> insert_room w cur n = (Inr r, w1)
                   \<and> room_name r = nickname cur @ ''|'' @ n
                   \<and> users r = [peer, cur]
                   \<and> room_table (db w1) = room_table (db w) @ [r]"
    by blast
next
  fix room_db
  assume found: "get_room_by_nickname (db w) cur n = Some room_db"
  show "get_or_create_room w cur n = (Inr room_db, w)"
    using found_branch(1) [OF found assms(2)] .
  {
    assume "CHR ''|'' \<notin> set (nickname cur) \<and> CHR ''|'' \<notin> set n
            \<and> (room_name room_db = nickname cur @ ''|'' @ n
               \<or> room_name room_db = n @ ''|'' @ nickname cur)"
    then have "extract_nickname room_db cur = Inr (room_db\<lparr>room_name := n\<rparr>)"
      using extract_nickname_canonical by blast
    then show "fst (insert_room w cur n) = Inr (room_db\<lparr>room_name := n\<rparr>)"
      using insert_room_found_overwrites_row [OF found assms(2)] by simp
  }
  {
    assume "nickname cur \<notin> set (split_str CHR ''|'' (room_name room_db))"
    then show "fst (insert_room w cur n) = Inl ValueError"
      using insert_room_found_missing_token [OF found assms(2)] by simp
  }
qed

theorem resolve_or_create_label_witness:
  "get_or_create_room world0 alice ''bob'' = (Inr room1, world1)
   \<and> insert_room world0 alice ''bob'' = (Inr room1, world1)
   \<and> get_or_create_room world1 alice ''bob'' = (Inr room1, world1)
   \<and> fst (insert_room world1 alice ''bob'') = Inr (room1\<lparr>room_name := ''bob''\<rparr>)
   \<and> fst (insert_room world1_relabelled alice ''bob'') = Inl ValueError"
  using resolve_or_create_label [of world0 "''bob''" bob alice]
    resolve_or_create_label [of world1 "''bob''" bob alice]
    resolve_or_create_label [of world1_relabelled "''bob''" bob alice]
  by (simp add: fx room_ids_fresh_def get_user_by_nickname_def get_room_by_nickname_def
      has_nickname_def extract_nickname_def extract_nickname_row_def set_room_name_def
      new_room_def add_commit_def get_or_create_room_def insert_room_def
      get_user_by_field_def get_room_by_id_def Let_def)

text \<open>
  C3 as stated fails: for requester alice and peer bob the viewer-facing label is \<open>bob\<close>,
  but the room returned after creation by either method, and the room
  \<open>get_or_create_room\<close> returns when it finds one, carry the canonical label \<open>alice|bob\<close>.
\<close>

theorem resolve_or_create_label_counterexample:
  "fst (get_or_create_room world0 alice ''bob'') = Inr room1
   \<and> fst (insert_room world0 alice ''bob'') = Inr room1
   \<and> fst (get_or_create_room world1 alice ''bob'') = Inr room1
   \<and> room_name room1 = ''alice|bob''
   \<and> extract_nickname room1 alice = Inr (room1\<lparr>room_name := ''bob''\<rparr>)
   \<and> room1 \<noteq> room1\<lparr>room_name := ''bob''\<rparr>"
  by (simp add: fx get_user_by_nickname_def get_room_by_nickname_def
      has_nickname_def extract_nickname_def new_room_def add_commit_def
      get_or_create_room_def insert_room_def get_user_by_field_def get_room_by_id_def Let_def)

text \<open>
  C4. For users \<open>a\<close> and \<open>b\<close> whose nicknames are known, on a table whose ids are below the
  next key: \<open>get_or_create_room a b\<close> returns a room; calling it again, or calling the
  symmetric \<open>get_or_create_room b a\<close>, returns that same room (so the same id) and writes
  nothing; the lookup by either direction of the pair finds that room; and the number of
  rooms matching the pair afterwards is the number before, or one when there was none
  (no duplicate is created, so at most one room where there was at most one).
\<close>

theorem get_or_create_room_idempotent:
  assumes fresh: "room_ids_fresh (db w)"
    and known_b: "get_user_by_nickname (db w) (nickname b) \<noteq> None"
    and known_a: "get_user_by_nickname (db w) (nickname a) \<noteq> None"
  shows "\<exists>r w1.
      get_or_create_room w a (nickname b) = (Inr r, w1)
    \<and> get_or_create_room w1 a (nickname b) = (Inr r, w1)
    \<and> get_or_create_room w1 b (nickname a) = (Inr r, w1)
    \<and> get_room_by_nickname (db w1) a (nickname b) = Some r
    \<and> get_room_by_nickname (db w1) b (nickname a) = Some r
    \<and> length (rooms_of_pair (db w1) (nickname a) (nickname b))
        = max 1 (length (rooms_of_pair (db w) (nickname a) (nickname b)))"
proof -
  obtain pb where pb: "get_user_by_nickname (db w) (nickname b) = Some pb"
    using known_b by blast
  obtain pa where pa: "get_user_by_nickname (db w) (nickname a) = Some pa"
    using known_a by blast
  show ?thesis
  proof (cases "get_room_by_nickname (db w) a (nickname b)")
    case (Some r)
    have 1: "get_or_create_room w a (nickname b) = (Inr r, w)"
      using found_branch(1) [OF Some pb] .
    have sym: "get_room_by_nickname (db w) b (nickname a) = Some r"
      using Some by (simp add: get_room_by_nickname_sym)
    have 2: "get_or_create_room w b (nickname a) = (Inr r, w)"
      using found_branch(1) [OF sym pa] .
    have "1 \<le> length (rooms_of_pair (db w) (nickname a) (nickname b))"
      using Some unfolding rooms_of_pair_def get_room_by_nickname_pair
      by (rule find_Some_filter)
    then have 3: "length (rooms_of_pair (db w) (nickname a) (nickname b))
        = max 1 (length (rooms_of_pair (db w) (nickname a) (nickname b)))"
      by simp
    from 1 2 3 Some sym show ?thesis by blast
  next
    case None
    let ?r = "new_room (db w) (nickname a @ ''|'' @ nickname b) [pb, a]"
    let ?w1 = "w\<lparr>db := add_commit (db w) ?r\<rparr>"
    have 1: "get_or_create_room w a (nickname b) = (Inr ?r, ?w1)"
      using created_branch(1) [OF fresh None pb] .
    have nb: "nickname pb = nickname b"
      using pb by (rule nickname_found)
    have pair: "has_nickname (nickname a) ?r \<and> has_nickname (nickname b) ?r"
      by (simp add: has_nickname_def new_room_def nb)
    have old: "find (\<lambda>r. has_nickname (nickname a) r \<and> has_nickname (nickname b) r)
                 (room_table (db w)) = None"
      using None by (simp add: get_room_by_nickname_pair)
    have look: "get_room_by_nickname (db ?w1) a (nickname b) = Some ?r"
      using old pair by (simp add: get_room_by_nickname_pair add_commit_def find_append)
    have sym: "get_room_by_nickname (db ?w1) b (nickname a) = Some ?r"
      using look by (simp add: get_room_by_nickname_sym)
    have users_same: "get_user_by_nickname (db ?w1) = get_user_by_nickname (db w)"
      by (simp add: get_user_by_nickname_def add_commit_def fun_eq_iff)
    have 2: "get_or_create_room ?w1 a (nickname b) = (Inr ?r, ?w1)"
      using found_branch(1) [OF look] pb users_same by simp
    have 3: "get_or_create_room ?w1 b (nickname a) = (Inr ?r, ?w1)"
      using found_branch(1) [OF sym] pa users_same by simp
    have 4: "length (rooms_of_pair (db ?w1) (nickname a) (nickname b))
        = max 1 (length (rooms_of_pair (db w) (nickname a) (nickname b)))"
      using find_None_filter [OF old] pair by (simp add: rooms_of_pair_def add_commit_def)
    from 1 2 3 4 look sym show ?thesis by blast
  qed
qed

theorem get_or_create_room_idempotent_witness:
  "get_or_create_room world0 alice ''bob'' = (Inr room1, world1)
   \<and> get_or_create_room world1 alice ''bob'' = (Inr room1, world1)
   \<and> get_or_create_room world1 bob ''alice'' = (Inr room1, world1)
   \<and> get_room_by_nickname db1 bob ''alice'' = Some room1
   \<and> length (rooms_of_pair db1 ''alice'' ''bob'') = 1"
proof -
  have fresh: "room_ids_fresh (db world0)"
    by (simp add: fx room_ids_fresh_def)
  have kb: "get_user_by_nickname (db world0) (nickname bob) \<noteq> None"
    and ka: "get_user_by_nickname (db world0) (nickname alice) \<noteq> None"
    by (simp_all add: fx get_user_by_nickname_def)
  have first: "get_or_create_room world0 alice ''bob'' = (Inr room1, world1)"
    by (simp add: fx get_user_by_nickname_def get_room_by_nickname_def has_nickname_def
        new_room_def add_commit_def get_or_create_room_def get_user_by_field_def
        get_room_by_id_def Let_def)
  have none: "rooms_of_pair (db world0) ''alice'' ''bob'' = []"
    by (simp add: fx rooms_of_pair_def)
  obtain r w1 where
    h: "get_or_create_room world0 alice (nickname bob) = (Inr r, w1)"
       "get_or_create_room w1 alice (nickname bob) = (Inr r, w1)"
       "get_or_create_room w1 bob (nickname alice) = (Inr r, w1)"
       "get_room_by_nickname (db w1) bob (nickname alice) = Some r"
       "length (rooms_of_pair (db w1) (nickname alice) (nickname bob))
          = max 1 (length (rooms_of_pair (db world0) (nickname alice) (nickname bob)))"
    using get_or_create_room_idempotent [OF fresh kb ka] by blast
  have nb: "nickname bob = ''bob''" and na: "nickname alice = ''alice''"
    by (simp_all add: fx)
  have eq: "r = room1" "w1 = world1"
    using h(1) first by (simp_all add: nb)
  have d1: "db world1 = db1"
    by (simp add: world1_def)
  show ?thesis
    using h first none unfolding eq nb na d1 by simp
qed

section \<open>Activity flag and leaving: proofs\<close>

lemma find_id_update_active:
  "find (\<lambda>r. room_id r = rid) (room_table (update_active d rid b))
     = map_option (\<lambda>r. r\<lparr>active := b\<rparr>) (find (\<lambda>r. room_id r = rid) (room_table d))"
proof (induction "room_table d" arbitrary: d)
  case Nil
  then show ?case by (simp add: update_active_def)
next
  case (Cons x xs)
  from Cons(1) [of "d\<lparr>room_table := xs\<rparr>"] Cons(2) [symmetric]
  show ?case by (simp add: update_active_def)
qed

lemma refetch_room_found:
  assumes "find (\<lambda>r. room_id r = rid) (room_table (db w)) = Some room_db"
  shows "refetch_room w rid = (Inr (Some room_db), w)"
  using assms by (simp add: refetch_room_def get_room_by_id_def)

text \<open>
  C7, as the code has it. For a room that exists, an exception of the update or of its
  commit is caught and logged and the database is as it was, but the method then
  queries the session again outside the \<open>try\<close>: when the failure left the session
  unable to answer (it was not rolled back), that query's exception leaves
  \<open>set_room_activity\<close>, which returns no room. Only when the session still answers is
  the stored room returned; when the update succeeds the room is returned with the new
  flag.
\<close>

theorem set_room_activity_refetch_raises:
  assumes "find (\<lambda>r. room_id r = rid) (room_table (db w)) = Some room_db"
  shows "set_room_activity (Some (Fault e (Some e2))) w rid activity_bool
           = (Inl e2, logger w (Error_setting_activity e))
       \<and> set_room_activity (Some (Fault e None)) w rid activity_bool
           = (Inr (Some room_db), logger w (Error_setting_activity e))
       \<and> set_room_activity None w rid activity_bool
           = (Inr (Some (room_db\<lparr>active := activity_bool\<rparr>)),
              logger (w\<lparr>db := update_active (db w) rid activity_bool\<rparr>)
                (Info_updated_room_activity activity_bool))"
proof -
  have first: "get_room_by_id (db w) rid None True = (Inr room_db, db w)"
    using assms by (simp add: get_room_by_id_def)
  have logged: "refetch_room (logger w (Error_setting_activity e)) rid
                  = (Inr (Some room_db), logger w (Error_setting_activity e))"
    using assms by (simp add: refetch_room_found logger_def)
  have updated: "refetch_room
                   (logger (w\<lparr>db := update_active (db w) rid activity_bool\<rparr>)
                      (Info_updated_room_activity activity_bool)) rid
                  = (Inr (Some (room_db\<lparr>active := activity_bool\<rparr>)),
                     logger (w\<lparr>db := update_active (db w) rid activity_bool\<rparr>)
                       (Info_updated_room_activity activity_bool))"
    using assms by (simp add: refetch_room_found logger_def find_id_update_active)
  show ?thesis
    by (simp add: set_room_activity_def first logged updated)
qed

theorem set_room_activity_refetch_raises_witness:
  "set_room_activity
       (Some (Fault (Exception ''commit failed'') (Some (Exception ''session not rolled back''))))
       world1 1 False
     = (Inl (Exception ''session not rolled back''),
        world1\<lparr>logs := [Error_setting_activity (Exception ''commit failed'')]\<rparr>)"
  using set_room_activity_refetch_raises
    [of 1 world1 room1 "Exception ''commit failed''" "Exception ''session not rolled back''" False]
  by (simp add: fx logger_def)

text \<open>
  What \<open>remove_user_from_chat\<close> does for a member: it returns normally, the room is gone
  from the table when the membership became empty, and stays with the reduced
  membership otherwise.
\<close>

lemma get_room_by_id_unfiltered:
  "get_room_by_id d rid (Some cur) False
     = (case find (\<lambda>r. list_ex (\<lambda>u. user_id u = user_id cur) (users r) \<and> room_id r = rid)
               (room_table d) of
          None \<Rightarrow> Inl (NotFoundError ''Chat'')
        | Some r \<Rightarrow> Inr r, d)"
  by (simp add: get_room_by_id_def split: option.splits)

lemma remove_user_from_chat_member:
  assumes "fst (get_room_by_id (db w) rid (Some cur) False) = Inr room_db"
    and "cur \<in> set (users room_db)"
  shows "fst (remove_user_from_chat w cur rid) = Inr ()
       \<and> (remove1 cur (users room_db) = [] \<longrightarrow>
            rid \<notin> room_id ` set (room_table (db (snd (remove_user_from_chat w cur rid)))))
       \<and> (remove1 cur (users room_db) \<noteq> [] \<longrightarrow>
            room_db\<lparr>users := remove1 cur (users room_db)\<rparr>
              \<in> set (room_table (db (snd (remove_user_from_chat w cur rid)))))"
proof -
  have fetched: "get_room_by_id (db w) rid (Some cur) False = (Inr room_db, db w)"
    using assms(1) by (simp add: get_room_by_id_unfiltered split: option.splits)
  have mem: "room_db \<in> set (room_table (db w))" and rid: "room_id room_db = rid"
    using assms(1) by (auto simp: get_room_by_id_unfiltered find_Some_iff split: option.splits)
  have ids: "user_id cur \<in> user_id ` set (users room_db)"
    using assms(2) by blast
  have "room_db\<lparr>users := us\<rparr> \<in> set (room_table (commit_users (db w) rid us))" for us
    using mem rid by (force simp: commit_users_def)
  then show ?thesis
    using assms(2) ids rid
    by (auto simp: remove_user_from_chat_def fetched Let_def logger_def delete_room_def)
qed

text \<open>
  The branch that logs "You don't have chat" is never taken: the room is fetched with
  the membership filter, so a fetched room always holds the user's id. The log grows by
  the removal entry or not at all.
\<close>

lemma remove_user_from_chat_never_logs_no_chat:
  "logs (snd (remove_user_from_chat w cur rid)) = logs w
   \<or> logs (snd (remove_user_from_chat w cur rid)) = logs w @ [Info_removing_chat rid]"
proof (cases "find (\<lambda>r. list_ex (\<lambda>u. user_id u = user_id cur) (users r) \<and> room_id r = rid)
               (room_table (db w))")
  case None
  then show ?thesis by (simp add: remove_user_from_chat_def get_room_by_id_unfiltered)
next
  case (Some room_db)
  then have "list_ex (\<lambda>u. user_id u = user_id cur) (users room_db)"
    by (auto simp: find_Some_iff)
  then have "user_id cur \<in> user_id ` set (users room_db)"
    unfolding list_ex_iff image_iff by metis
  with Some show ?thesis
    by (simp add: remove_user_from_chat_def get_room_by_id_unfiltered logger_def Let_def)
qed

text \<open>
  C6, the non-member case as the code has it. When no room with the given id has a
  member with the user's id, \<open>remove_user_from_chat\<close> raises \<open>NotFoundError\<close> and writes
  nothing, no log entry included: it is not a no-op with a log entry.
\<close>

theorem remove_user_from_chat_non_member:
  assumes "\<not> list_ex (\<lambda>r. list_ex (\<lambda>u. user_id u = user_id cur) (users r) \<and> room_id r = rid)
               (room_table (db w))"
  shows "remove_user_from_chat w cur rid = (Inl (NotFoundError ''Chat''), w)"
proof -
  have "find (\<lambda>r. list_ex (\<lambda>u. user_id u = user_id cur) (users r) \<and> room_id r = rid)
          (room_table (db w)) = None"
    using assms by (simp add: find_None_iff list_ex_iff)
  then show ?thesis
    by (simp add: remove_user_from_chat_def get_room_by_id_unfiltered)
qed

theorem remove_user_from_chat_non_member_witness:
  "remove_user_from_chat world1 carol 1 = (Inl (NotFoundError ''Chat''), world1)"
  using remove_user_from_chat_non_member [of carol 1 world1]
  by (simp add: fx)

section \<open>Session: proofs\<close>

text \<open>
  C1, as the code has it. For a CREATE action with content, in a session that holds a
  room, whose \<open>create_message\<close> raises: \<open>upload_message_to_room\<close> logs the error and
  returns \<open>False\<close>; \<open>on_receive\<close> then reads \<open>new_message.id\<close> of \<open>False\<close> and raises
  \<open>AttributeError\<close> instead of returning. No call to \<open>connection_state\<close> is made.
\<close>

theorem on_receive_create_store_failure:
  assumes "map_of msg ''action'' = Some (JStr ''CREATE'')"
    and "map_of msg ''content'' = Some content"
    and "room s = Some r"
    and "create_message ms (db w)
           \<lparr>mc_context = content, mc_room_id = room_id r,
            mc_author_id = user_id (current_user s)\<rparr> = Inl e"
  shows "upload_message_to_room ms w (current_user s) (room s) msg
           = (PyFalse, logger w (Error_adding_message e))
       \<and> on_receive ms s w msg
           = (Inl (AttributeError ''bool.id''), logger w (Error_adding_message e))
       \<and> sent (snd (on_receive ms s w msg)) = sent w"
  using assms by (simp add: on_receive_def upload_message_to_room_def logger_def)

theorem on_receive_create_store_failure_witness:
  "on_receive failing_store session1 world1 [(''action'', JStr ''CREATE''), (''content'', JStr ''hi'')]
     = (Inl (AttributeError ''bool.id''),
        world1\<lparr>logs := [Error_adding_message (Exception ''store down'')]\<rparr>)"
  using on_receive_create_store_failure
    [of "[(''action'', JStr ''CREATE''), (''content'', JStr ''hi'')]" "JStr ''hi''"
        session1 room1 failing_store world1 "Exception ''store down''"]
  by (simp add: fx logger_def)

text \<open>
  C8. An inbound message whose action tag is none of CREATE, UPDATE and DELETE is
  ignored: \<open>on_receive\<close> returns normally and the world (database, relay calls and log)
  is unchanged.
\<close>

theorem on_receive_unknown_action_ignored:
  assumes "map_of msg ''action'' = Some action"
    and "action \<noteq> JStr ''CREATE''" and "action \<noteq> JStr ''UPDATE''" and "action \<noteq> JStr ''DELETE''"
  shows "on_receive ms s w msg = (Inr (), w)"
  using assms by (simp add: on_receive_def)

theorem on_receive_unknown_action_ignored_witness:
  "on_receive failing_store session1 world1 [(''action'', JStr ''PING''), (''content'', JStr ''hi'')]
     = (Inr (), world1)"
  using on_receive_unknown_action_ignored
    [of "[(''action'', JStr ''PING''), (''content'', JStr ''hi'')]" "JStr ''PING''"
        failing_store session1 world1]
  by simp

text \<open>
  C9. \<open>on_disconnect\<close> on a session whose room is still \<open>None\<close> raises \<open>AttributeError\<close>
  and emits nothing: so for a session on which \<open>on_connect\<close> never ran, and for one whose
  \<open>on_connect\<close> was rejected as a self-chat (which leaves the room \<open>None\<close>). With a cached
  room it emits \<open>USER_LEAVE\<close>.
\<close>

theorem on_disconnect_requires_room:
  "(room s = None \<longrightarrow> on_disconnect s w = (Inl (AttributeError ''NoneType.id''), w))
   \<and> on_disconnect (init_session cur other) w = (Inl (AttributeError ''NoneType.id''), w)
   \<and> (room s = None \<and> nickname (current_user s) = other_user_nickname s \<longrightarrow>
        (case on_connect ms s w of
           (res, s', w') \<Rightarrow>
              res = Inl RuntimeError \<and>
              on_disconnect s' w' = (Inl (AttributeError ''NoneType.id''), w)))
   \<and> (room s = Some r \<longrightarrow>
        on_disconnect s w =
          (Inr (), connection_state w (room_id r)
                     (USER_LEAVE (room_id r) (user_id (current_user s))
                        (nickname (current_user s)))))"
  by (simp add: on_disconnect_def on_connect_def init_session_def)

theorem on_disconnect_requires_room_witness:
  "on_disconnect (init_session alice ''alice'') world1
      = (Inl (AttributeError ''NoneType.id''), world1)
   \<and> on_connect failing_store (init_session alice ''alice'') world1
        = (Inl RuntimeError, init_session alice ''alice'', world1)
   \<and> on_disconnect session1 world1
        = (Inr (), world1\<lparr>sent := [(1, USER_LEAVE 1 1 ''alice'')]\<rparr>)"
  using on_disconnect_requires_room
      [of "init_session alice ''alice''" world1 alice "''alice''" failing_store room1]
    on_disconnect_requires_room [of session1 world1 alice "''alice''" failing_store room1]
  by (simp add: fx init_session_def connection_state_def on_connect_def)

section \<open>Relay: proofs\<close>

text \<open>
  C2, as the code has it. The chat consumer subscribes to the confirmation topic, the
  chat producer sends to the chat-rooms topic: when the two topics differ, a chat event
  the producer publishes changes nothing of what the consumer receives and broadcasts.
\<close>

theorem chat_consumer_misses_chat_topic:
  assumes "confirmation_topic c \<noteq> chat_rooms_topic c"
  shows "send_chat_message_consumer c (send_chat_message_producer c b message)
           = send_chat_message_consumer c b"
  using assms
  by (simp add: send_chat_message_consumer_def send_chat_message_producer_def send_and_wait_def
       Let_def)

theorem chat_consumer_misses_chat_topic_witness:
  "send_chat_message_consumer container0
      (send_chat_message_producer container0 (\<lambda>t. []) chat_event0) = (None, [])
   \<and> consume_records []
        (send_chat_message_producer container0 (\<lambda>t. []) chat_event0 (chat_rooms_topic container0))
      = (None, [(JInt 1, chat_event0)])"
  using chat_consumer_misses_chat_topic [of container0 "\<lambda>t. []" chat_event0]
  by (simp add: fx send_chat_message_consumer_def send_chat_message_producer_def
       send_and_wait_def json_dumps_def)

end
